theory Spec2Isabelle
  imports Complex_Main
begin

section \<open>JavaScript values used by the rate calculation engine\<close>

text \<open>
  The engine (\<^verbatim>\<open>src/models/rate_item.js\<close>, \<^verbatim>\<open>additional_charge.js\<close>,
  \<^verbatim>\<open>charge_calculation.js\<close> and the \<^verbatim>\<open>FuelAdjustment\<close> class of
  \<^verbatim>\<open>src/services/rate_card_service.js\<close>) computes on JavaScript numbers and on
  the dynamically typed fields of a trip record.

  Numbers: a JavaScript number is an IEEE 754 double: \<open>NaN\<close>, an infinity, or a finite
  value. A finite value is written \<open>Fin q\<close> with \<open>q\<close> the rational it stands for. Every
  arithmetic operation computes the exact result and rounds it to the nearest double,
  ties to the even significand; a result too large becomes an infinity and one too small
  becomes zero. The two zeros of IEEE 754 are one value here: the engine compares
  numbers and divides only by the reference price (after its test against zero) and by
  100, and none of these tells the zeros apart.

  Values: the primitive values, the built-in functions that every plain object inherits
  (named by the function's own name) and the object \<^verbatim>\<open>Object.prototype\<close> itself.
\<close>

datatype jsnum = NaN | NInf | Fin rat | PInf

datatype jsval =
    JUndefined | JNull | JBool bool | JNum jsnum | JStr string
  | JFunction string | JObjectPrototype

subsection \<open>Rounding to a double\<close>

fun js_neg :: "jsnum \<Rightarrow> jsnum" where
  "js_neg NaN = NaN"
| "js_neg NInf = PInf"
| "js_neg PInf = NInf"
| "js_neg (Fin a) = Fin (- a)"

text \<open>The nearest integer, a tie going to the even one.\<close>

definition round_even :: "rat \<Rightarrow> int" where
  "round_even x =
     (let f = \<lfloor>x\<rfloor>; d = x - of_int f in
      if d < 1 / 2 then f else if 1 / 2 < d then f + 1 else if even f then f else f + 1)"

text \<open>The number of binary digits of a natural number.\<close>

fun bit_length :: "nat \<Rightarrow> nat" where
  "bit_length n = (if n = 0 then 0 else Suc (bit_length (n div 2)))"

declare bit_length.simps [simp del]

text \<open>For \<open>a > 0\<close>, the exponent \<open>e\<close> with \<open>2\<^sup>e \<le> a < 2\<^sup>e\<^sup>+\<^sup>1\<close>.\<close>

definition ilog2 :: "rat \<Rightarrow> int" where
  "ilog2 a =
     (if 1 \<le> a then int (bit_length (nat \<lfloor>a\<rfloor>)) - 1
      else - int (bit_length (nat (\<lceil>1 / a\<rceil> - 1))))"

definition pow2 :: "int \<Rightarrow> rat" where
  "pow2 e = (if 0 \<le> e then 2 ^ nat e else 1 / 2 ^ nat (- e))"

text \<open>
  A positive rational to the nearest double. A double has a significand of 53 binary
  digits, so the spacing of the doubles around \<open>a\<close> is \<open>2\<^sup>e\<^sup>-\<^sup>5\<^sup>2\<close>, and never less than
  \<open>2\<^sup>-\<^sup>1\<^sup>0\<^sup>7\<^sup>4\<close>, the smallest positive double. The largest double is
  \<open>(2\<^sup>5\<^sup>3 - 1) \<times> 2\<^sup>9\<^sup>7\<^sup>1\<close>; what rounds above it is an infinity.
\<close>

definition round_pos :: "rat \<Rightarrow> jsnum" where
  "round_pos a =
     (let e = ilog2 a;
          ex = max (e - 52) (- 1074);
          m = round_even (a / pow2 ex)
      in if 1024 \<le> e \<or> (e = 1023 \<and> 2 ^ 53 \<le> m) then PInf else Fin (of_int m * pow2 ex))"

definition rnd :: "rat \<Rightarrow> jsnum" where
  "rnd q = (if q = 0 then Fin 0 else if 0 < q then round_pos q else js_neg (round_pos (- q)))"

subsection \<open>Arithmetic\<close>

fun js_add :: "jsnum \<Rightarrow> jsnum \<Rightarrow> jsnum" where
  "js_add NaN _ = NaN"
| "js_add _ NaN = NaN"
| "js_add PInf NInf = NaN"
| "js_add NInf PInf = NaN"
| "js_add PInf _ = PInf"
| "js_add _ PInf = PInf"
| "js_add NInf _ = NInf"
| "js_add _ NInf = NInf"
| "js_add (Fin a) (Fin b) = rnd (a + b)"

definition js_sub :: "jsnum \<Rightarrow> jsnum \<Rightarrow> jsnum" where
  "js_sub a b = js_add a (js_neg b)"

text \<open>The sign of a number that is not \<open>NaN\<close>: \<open>-1\<close>, \<open>0\<close> or \<open>1\<close>.\<close>

fun js_sgn :: "jsnum \<Rightarrow> int" where
  "js_sgn NaN = 0"
| "js_sgn NInf = - 1"
| "js_sgn PInf = 1"
| "js_sgn (Fin a) = (if a < 0 then - 1 else if a = 0 then 0 else 1)"

definition signed_inf :: "int \<Rightarrow> jsnum" where
  "signed_inf s = (if s = 0 then NaN else if s < 0 then NInf else PInf)"

fun js_mul :: "jsnum \<Rightarrow> jsnum \<Rightarrow> jsnum" where
  "js_mul NaN _ = NaN"
| "js_mul _ NaN = NaN"
| "js_mul (Fin a) (Fin b) = rnd (a * b)"
| "js_mul a b = signed_inf (js_sgn a * js_sgn b)"

fun js_div :: "jsnum \<Rightarrow> jsnum \<Rightarrow> jsnum" where
  "js_div NaN _ = NaN"
| "js_div _ NaN = NaN"
| "js_div (Fin a) (Fin b) = (if b = 0 then signed_inf (js_sgn (Fin a)) else rnd (a / b))"
| "js_div (Fin a) _ = Fin 0"
| "js_div a (Fin b) = signed_inf (js_sgn a * (if b < 0 then - 1 else 1))"
| "js_div _ _ = NaN"

subsection \<open>Comparison\<close>

text \<open>Every comparison with \<open>NaN\<close> is false, also \<^verbatim>\<open>>=\<close> and \<^verbatim>\<open><=\<close>.\<close>

fun js_lt :: "jsnum \<Rightarrow> jsnum \<Rightarrow> bool" where
  "js_lt NaN _ = False"
| "js_lt _ NaN = False"
| "js_lt _ NInf = False"
| "js_lt NInf _ = True"
| "js_lt PInf _ = False"
| "js_lt _ PInf = True"
| "js_lt (Fin a) (Fin b) = (a < b)"

definition js_gt :: "jsnum \<Rightarrow> jsnum \<Rightarrow> bool" where
  "js_gt a b = js_lt b a"

definition js_le :: "jsnum \<Rightarrow> jsnum \<Rightarrow> bool" where
  "js_le a b = (a \<noteq> NaN \<and> b \<noteq> NaN \<and> \<not> js_lt b a)"

definition js_ge :: "jsnum \<Rightarrow> jsnum \<Rightarrow> bool" where
  "js_ge a b = js_le b a"

text \<open>Equality of numbers as \<^verbatim>\<open>===\<close> has it: \<open>NaN\<close> is not equal to itself.\<close>

definition num_eq :: "jsnum \<Rightarrow> jsnum \<Rightarrow> bool" where
  "num_eq a b = (a \<noteq> NaN \<and> a = b)"

subsection \<open>Strings to numbers\<close>

text \<open>
  Strings are lists of code units below 256. The white space of the language in that
  range: tab, line feed, vertical tab, form feed, carriage return, space, no-break space.
\<close>

definition is_ws :: "char \<Rightarrow> bool" where
  "is_ws c = ((of_char c :: nat) \<in> {9, 10, 11, 12, 13, 32, 160})"

definition trimStart :: "string \<Rightarrow> string" where
  "trimStart s = dropWhile is_ws s"

definition trim :: "string \<Rightarrow> string" where
  "trim s = rev (dropWhile is_ws (rev (dropWhile is_ws s)))"

definition is_digit :: "char \<Rightarrow> bool" where
  "is_digit c = (48 \<le> (of_char c :: nat) \<and> (of_char c :: nat) \<le> 57)"

text \<open>The value of a digit in a radix up to 16; 99 for any other character.\<close>

definition digit_val :: "char \<Rightarrow> nat" where
  "digit_val c =
     (let n = (of_char c :: nat) in
      if 48 \<le> n \<and> n \<le> 57 then n - 48
      else if 97 \<le> n \<and> n \<le> 102 then n - 87
      else if 65 \<le> n \<and> n \<le> 70 then n - 55
      else 99)"

definition digits_value :: "nat \<Rightarrow> string \<Rightarrow> nat" where
  "digits_value b ds = foldl (\<lambda>a c. b * a + digit_val c) 0 ds"

definition pow10 :: "int \<Rightarrow> rat" where
  "pow10 e = (if 0 \<le> e then 10 ^ nat e else 1 / 10 ^ nat (- e))"

text \<open>
  The exponent part of a decimal literal, when the string starts with one: the exponent
  and the rest of the string. A lone \<^verbatim>\<open>e\<close> is not consumed.
\<close>

definition parse_exponent :: "string \<Rightarrow> int \<times> string" where
  "parse_exponent s =
     (case s of
        [] \<Rightarrow> (0, s)
      | c # r \<Rightarrow>
          if c = CHR ''e'' \<or> c = CHR ''E'' then
            (let neg = (r \<noteq> [] \<and> hd r = CHR ''-'');
                 r' = (if r \<noteq> [] \<and> (hd r = CHR ''-'' \<or> hd r = CHR ''+'') then tl r else r);
                 ds = takeWhile is_digit r'
             in if ds = [] then (0, s)
                else (if neg then - int (digits_value 10 ds) else int (digits_value 10 ds),
                      dropWhile is_digit r'))
          else (0, s))"

text \<open>
  The longest prefix that is an unsigned decimal literal of the language
  (\<^verbatim>\<open>Infinity\<close>, \<^verbatim>\<open>12\<close>, \<^verbatim>\<open>12.\<close>, \<^verbatim>\<open>12.5\<close>, \<^verbatim>\<open>.5\<close>, each of the last four
  with an optional exponent): its value, rounded to a double, and the rest of the string.
\<close>

definition parse_unsigned :: "string \<Rightarrow> (jsnum \<times> string) option" where
  "parse_unsigned s =
     (if take 8 s = ''Infinity'' then Some (PInf, drop 8 s)
      else
        let ip = takeWhile is_digit s;
            r1 = dropWhile is_digit s;
            dot = (r1 \<noteq> [] \<and> hd r1 = CHR ''.'');
            fp = (if dot then takeWhile is_digit (tl r1) else []);
            r2 = (if dot then dropWhile is_digit (tl r1) else r1)
        in if ip = [] \<and> fp = [] then None
           else
             (let (e, r3) = parse_exponent r2;
                  m = of_nat (digits_value 10 ip) + of_nat (digits_value 10 fp) / 10 ^ length fp
              in Some (rnd (m * pow10 e), r3)))"

definition parse_decimal :: "string \<Rightarrow> (jsnum \<times> string) option" where
  "parse_decimal s =
     (case s of
        [] \<Rightarrow> None
      | c # r \<Rightarrow>
          if c = CHR ''-'' then map_option (\<lambda>(n, rest). (js_neg n, rest)) (parse_unsigned r)
          else if c = CHR ''+'' then parse_unsigned r
          else parse_unsigned s)"

text \<open>
  \<^verbatim>\<open>parseFloat\<close> on a string: leading white space is dropped, the longest prefix that
  is a decimal literal is read, and anything after it is ignored; \<open>NaN\<close> when there is no
  such prefix.
\<close>

definition parseFloat_str :: "string \<Rightarrow> jsnum" where
  "parseFloat_str s =
     (case parse_decimal (trimStart s) of None \<Rightarrow> NaN | Some (n, _) \<Rightarrow> n)"

text \<open>
  An object as a string. A built-in function prints as its source text, which the
  language leaves to the implementation beyond its shape; the text here is the one of
  V8. \<^verbatim>\<open>Object.prototype\<close> prints as \<^verbatim>\<open>[object Object]\<close>.
\<close>

definition function_text :: "string \<Rightarrow> string" where
  "function_text n = ''function '' @ n @ ''() { [native code] }''"

text \<open>
  The conversion of a value to a primitive value: an object is converted by its
  \<^verbatim>\<open>valueOf\<close>, which returns the object itself, and then by its \<^verbatim>\<open>toString\<close>.
\<close>

fun to_primitive :: "jsval \<Rightarrow> jsval" where
  "to_primitive (JFunction n) = JStr (function_text n)"
| "to_primitive JObjectPrototype = JStr ''[object Object]''"
| "to_primitive v = v"

text \<open>
  \<^verbatim>\<open>parseFloat\<close> on any value: the argument is converted to a string first. A number
  prints to a string that reads back as the same number; \<^verbatim>\<open>undefined\<close>,
  \<^verbatim>\<open>null\<close>, \<^verbatim>\<open>true\<close> and \<^verbatim>\<open>false\<close> print to words that are no literal.
\<close>

definition parseFloat :: "jsval \<Rightarrow> jsnum" where
  "parseFloat v =
     (case to_primitive v of JStr s \<Rightarrow> parseFloat_str s | JNum n \<Rightarrow> n | _ \<Rightarrow> NaN)"

definition radix_literal :: "nat \<Rightarrow> string \<Rightarrow> jsnum" where
  "radix_literal b ds =
     (if ds \<noteq> [] \<and> list_all (\<lambda>c. digit_val c < b) ds then rnd (of_nat (digits_value b ds))
      else NaN)"

text \<open>
  The conversion of a string to a number that \<^verbatim>\<open>==\<close> and the arithmetic operators
  apply: white space is trimmed on both sides, the empty string is 0, and the whole of
  what remains must be one literal (decimal, or an unsigned hexadecimal, octal or binary
  integer).
\<close>

definition string_to_number :: "string \<Rightarrow> jsnum" where
  "string_to_number s =
     (let t = trim s in
      if t = [] then Fin 0
      else if take 2 t = ''0x'' \<or> take 2 t = ''0X'' then radix_literal 16 (drop 2 t)
      else if take 2 t = ''0o'' \<or> take 2 t = ''0O'' then radix_literal 8 (drop 2 t)
      else if take 2 t = ''0b'' \<or> take 2 t = ''0B'' then radix_literal 2 (drop 2 t)
      else (case parse_decimal t of Some (n, []) \<Rightarrow> n | _ \<Rightarrow> NaN))"

text \<open>The conversion of a value to a number; an object is made primitive first.\<close>

definition to_number :: "jsval \<Rightarrow> jsnum" where
  "to_number v =
     (case to_primitive v of
        JUndefined \<Rightarrow> NaN
      | JNull \<Rightarrow> Fin 0
      | JBool b \<Rightarrow> Fin (if b then 1 else 0)
      | JNum n \<Rightarrow> n
      | JStr s \<Rightarrow> string_to_number s
      | _ \<Rightarrow> NaN)"

subsection \<open>Values to strings\<close>

fun digits_of :: "nat \<Rightarrow> string" where
  "digits_of n =
     (if n < 10 then [char_of (48 + n)]
      else digits_of (n div 10) @ [char_of (48 + n mod 10)])"

declare digits_of.simps [simp del]

text \<open>
  A number as a string. A finite number prints as the shortest digit string that reads
  back as the same double. For an integer below \<open>2\<^sup>5\<^sup>3\<close> in magnitude these are its
  decimal digits. The rendering of every other finite number is the parameter \<open>ts\<close> of
  the model.
\<close>

fun num_to_string :: "(rat \<Rightarrow> string) \<Rightarrow> jsnum \<Rightarrow> string" where
  "num_to_string ts NaN = ''NaN''"
| "num_to_string ts PInf = ''Infinity''"
| "num_to_string ts NInf = ''-Infinity''"
| "num_to_string ts (Fin q) =
     (if of_int \<lfloor>q\<rfloor> = q \<and> \<bar>q\<bar> < 2 ^ 53
      then (if q < 0 then ''-'' else []) @ digits_of (nat \<bar>\<lfloor>q\<rfloor>\<bar>)
      else ts q)"

fun to_string :: "(rat \<Rightarrow> string) \<Rightarrow> jsval \<Rightarrow> string" where
  "to_string ts JUndefined = ''undefined''"
| "to_string ts JNull = ''null''"
| "to_string ts (JBool b) = (if b then ''true'' else ''false'')"
| "to_string ts (JNum n) = num_to_string ts n"
| "to_string ts (JStr s) = s"
| "to_string ts (JFunction n) = function_text n"
| "to_string ts JObjectPrototype = ''[object Object]''"

subsection \<open>Equality\<close>

text \<open>\<^verbatim>\<open>===\<close>: the same type and the same value; for objects, the same object.\<close>

fun strict_eq :: "jsval \<Rightarrow> jsval \<Rightarrow> bool" where
  "strict_eq (JNum a) (JNum b) = num_eq a b"
| "strict_eq a b = (a = b)"

definition is_object :: "jsval \<Rightarrow> bool" where
  "is_object v = (case v of JFunction _ \<Rightarrow> True | JObjectPrototype \<Rightarrow> True | _ \<Rightarrow> False)"

text \<open>
  \<^verbatim>\<open>==\<close>: \<^verbatim>\<open>null\<close> and \<^verbatim>\<open>undefined\<close> equal each other and nothing else; two
  objects are equal when they are the same object; an object against a primitive value
  is made primitive; two strings are compared as strings; in every other case both
  sides are converted to numbers (a boolean to 0 or 1).
\<close>

definition loose_eq :: "jsval \<Rightarrow> jsval \<Rightarrow> bool" where
  "loose_eq a b =
     (if a = JUndefined \<or> a = JNull then b = JUndefined \<or> b = JNull
      else if b = JUndefined \<or> b = JNull then False
      else if is_object a \<and> is_object b then a = b
      else (case (to_primitive a, to_primitive b) of
              (JStr s, JStr t) \<Rightarrow> s = t
            | (x, y) \<Rightarrow> num_eq (to_number x) (to_number y)))"

subsection \<open>Errors\<close>

text \<open>
  The engine throws plain \<^verbatim>\<open>Error\<close> objects told apart by their message; the
  language itself throws a \<^verbatim>\<open>TypeError\<close> when a method is called on a value that
  has none. One constructor for each throw site:
  \<^item> \<open>ConditionsNotMet\<close>: \<^verbatim>\<open>"Trip does not meet all rate conditions"\<close>;
  \<^item> \<open>UnsupportedRateType t\<close>: \<^verbatim>\<open>"Unsupported rate type: "\<close> followed by \<open>t\<close>;
  \<^item> \<open>UnsupportedOperator p\<close>: \<^verbatim>\<open>"Unsupported condition operator: "\<close> followed by \<open>p\<close>;
  \<^item> \<open>NoApplicableRate i\<close>: \<^verbatim>\<open>"No applicable rate found for trip: "\<close> followed by the
    trip's \<^verbatim>\<open>id\<close>, \<open>i\<close>;
  \<^item> \<open>TypeError\<close>: a method call on \<^verbatim>\<open>null\<close>, or \<^verbatim>\<open>split\<close> on a value that is
    not a string.
\<close>

datatype error =
    ConditionsNotMet
  | UnsupportedRateType string
  | UnsupportedOperator string
  | NoApplicableRate jsval
  | TypeError

subsection \<open>String and array methods\<close>

text \<open>\<^verbatim>\<open>s.split(c)\<close> for a one-character separator: never the empty array.\<close>

fun split_on :: "char \<Rightarrow> string \<Rightarrow> string list" where
  "split_on c [] = [] # []"
| "split_on c (x # xs) =
     (if x = c then [] # split_on c xs
      else (case split_on c xs of [] \<Rightarrow> [x] # [] | y # ys \<Rightarrow> (x # y) # ys))"

text \<open>\<^verbatim>\<open>v.split(',')\<close> on a value: only a string has the method.\<close>

fun split_method :: "jsval \<Rightarrow> error + string list" where
  "split_method (JStr s) = Inr (split_on CHR '','' s)"
| "split_method _ = Inl TypeError"

text \<open>\<^verbatim>\<open>v.toString()\<close>: \<^verbatim>\<open>null\<close> and \<^verbatim>\<open>undefined\<close> have no methods.\<close>

fun toString_method :: "(rat \<Rightarrow> string) \<Rightarrow> jsval \<Rightarrow> error + string" where
  "toString_method ts JUndefined = Inl TypeError"
| "toString_method ts JNull = Inl TypeError"
| "toString_method ts v = Inr (to_string ts v)"

text \<open>\<^verbatim>\<open>hay.includes(needle)\<close> on strings: \<open>needle\<close> occurs in \<open>hay\<close>.\<close>

fun str_includes :: "string \<Rightarrow> string \<Rightarrow> bool" where
  "str_includes [] needle = (needle = [])"
| "str_includes (h # hs) needle =
     (take (length needle) (h # hs) = needle \<or> str_includes hs needle)"

text \<open>
  Reading an element of an array of numbers by destructuring: \<^verbatim>\<open>undefined\<close> past
  the end.
\<close>

definition element :: "jsnum list \<Rightarrow> nat \<Rightarrow> jsval" where
  "element xs i = (if i < length xs then JNum (xs ! i) else JUndefined)"

text \<open>
  \<^verbatim>\<open>Map.prototype.set\<close>: a key already present keeps its place and takes the new
  value, a new key goes to the end. The entries are kept in insertion order.
\<close>

fun map_set :: "'k \<Rightarrow> 'v \<Rightarrow> ('k \<times> 'v) list \<Rightarrow> ('k \<times> 'v) list" where
  "map_set k v [] = [(k, v)]"
| "map_set k v (p # ps) = (if fst p = k then (k, v) # ps else p # map_set k v ps)"

section \<open>The data model\<close>

text \<open>
  A trip record is a plain object, given by the map of its own properties. Reading a
  property, \<^verbatim>\<open>tripData[k]\<close>, looks among the own properties first and then among
  those the object inherits from \<^verbatim>\<open>Object.prototype\<close>; a name found in neither reads
  as \<^verbatim>\<open>undefined\<close>.
\<close>

type_synonym TripData = "string \<Rightarrow> jsval option"

text \<open>
  The properties of \<^verbatim>\<open>Object.prototype\<close>: \<^verbatim>\<open>constructor\<close> is the function
  \<^verbatim>\<open>Object\<close>, \<^verbatim>\<open>__proto__\<close> reads the prototype of the object, and the others are
  functions named as the property is.
\<close>

definition object_prototype :: "string \<Rightarrow> jsval option" where
  "object_prototype k =
     (if k = ''constructor'' then Some (JFunction ''Object'')
      else if k = ''__proto__'' then Some JObjectPrototype
      else if k \<in> set [''hasOwnProperty'', ''isPrototypeOf'', ''propertyIsEnumerable'',
                         ''toLocaleString'', ''toString'', ''valueOf'', ''__defineGetter__'',
                         ''__defineSetter__'', ''__lookupGetter__'', ''__lookupSetter__'']
      then Some (JFunction k)
      else None)"

definition get_prop :: "TripData \<Rightarrow> string \<Rightarrow> jsval" where
  "get_prop tripData k =
     (case tripData k of
        Some v \<Rightarrow> v
      | None \<Rightarrow> (case object_prototype k of Some v \<Rightarrow> v | None \<Rightarrow> JUndefined))"

text \<open>
  The classes, with the fields the calculation reads. The identifiers (\<^verbatim>\<open>id\<close>,
  \<^verbatim>\<open>rateItemId\<close>, \<^verbatim>\<open>rateCardId\<close>), \<^verbatim>\<open>serviceCode\<close> and the charge's
  \<^verbatim>\<open>type\<close> are never read by it and are left out. A field name that two classes
  share carries the class as a suffix. The numeric fields hold what the constructors
  store: the result of \<^verbatim>\<open>parseFloat\<close>, a number. The flags \<^verbatim>\<open>enabled\<close> and
  \<^verbatim>\<open>isPercentage\<close> are booleans, and the matching keys and the rate type are strings.
\<close>

record RateCondition =
  parameter :: string
  operator :: string
  value_cond :: jsval

record AdditionalCharge =
  name :: string
  value_charge :: jsnum
  isPercentage :: bool
  conditions_charge :: "RateCondition list"

record FuelAdjustment =
  enabled :: bool
  basePrice :: jsnum
  currentPrice :: jsnum
  adjustmentFactor :: jsnum

record RateItem =
  origin :: string
  destination :: string
  vehicleType :: string
  rateType :: string
  baseRate :: jsnum
  minCharge :: jsnum
  additionalCharges_item :: "AdditionalCharge list"
  conditions :: "RateCondition list"
  fuelAdjustment_item :: FuelAdjustment

record RateCard =
  rateItems :: "RateItem list"

record ChargeCalculation =
  baseCharge :: jsnum
  additionalCharges :: "(string \<times> jsnum) list"
  fuelAdjustment :: jsnum
  discounts :: "(string \<times> jsnum) list"
  surcharges :: "(string \<times> jsnum) list"
  totalCharge :: jsnum

record ChargeBreakdown =
  baseCharge_b :: jsnum
  additionalCharges_b :: "(string \<times> jsnum) list"
  fuelAdjustment_b :: jsnum
  discounts_b :: "(string \<times> jsnum) list"
  surcharges_b :: "(string \<times> jsnum) list"
  totalCharge_b :: jsnum

section \<open>The operations\<close>

subsection \<open>\<^verbatim>\<open>RateCondition.evaluate\<close>\<close>

text \<open>
  The right operand of every comparison in \<^verbatim>\<open>evaluate\<close> is a number or
  \<^verbatim>\<open>undefined\<close>, never a string, so the language converts both sides to numbers.
\<close>

definition evaluate :: "(rat \<Rightarrow> string) \<Rightarrow> RateCondition \<Rightarrow> TripData \<Rightarrow> error + bool" where
  "evaluate ts c tripData =
     (let paramValue = get_prop tripData (parameter c) in
      if paramValue = JUndefined then Inr False
      else if operator c = ''EQUALS'' then
        Inr (loose_eq paramValue (value_cond c))
      else if operator c = ''NOT_EQUALS'' then
        Inr (\<not> loose_eq paramValue (value_cond c))
      else if operator c = ''GREATER_THAN'' then
        Inr (js_gt (to_number paramValue) (parseFloat (value_cond c)))
      else if operator c = ''LESS_THAN'' then
        Inr (js_lt (to_number paramValue) (parseFloat (value_cond c)))
      else if operator c = ''GREATER_THAN_EQUAL'' then
        Inr (js_ge (to_number paramValue) (parseFloat (value_cond c)))
      else if operator c = ''LESS_THAN_EQUAL'' then
        Inr (js_le (to_number paramValue) (parseFloat (value_cond c)))
      else if operator c = ''BETWEEN'' then
        (case split_method (value_cond c) of
           Inl e \<Rightarrow> Inl e
         | Inr parts \<Rightarrow>
             (let nums = map (\<lambda>v. parseFloat_str (trim v)) parts;
                  min = element nums 0;
                  max = element nums 1
              in Inr (js_ge (to_number paramValue) (to_number min) \<and>
                      js_le (to_number paramValue) (to_number max))))
      else if operator c = ''IN'' then
        (case split_method (value_cond c) of
           Inl e \<Rightarrow> Inl e
         | Inr parts \<Rightarrow>
             (let values = map trim parts in
              case toString_method ts paramValue of
                Inl e \<Rightarrow> Inl e
              | Inr s \<Rightarrow> Inr (s \<in> set values)))
      else if operator c = ''NOT_IN'' then
        (case split_method (value_cond c) of
           Inl e \<Rightarrow> Inl e
         | Inr parts \<Rightarrow>
             (let excludedValues = map trim parts in
              case toString_method ts paramValue of
                Inl e \<Rightarrow> Inl e
              | Inr s \<Rightarrow> Inr (s \<notin> set excludedValues)))
      else if operator c = ''CONTAINS'' then
        (case toString_method ts paramValue of
           Inl e \<Rightarrow> Inl e
         | Inr s \<Rightarrow> Inr (str_includes s (to_string ts (value_cond c))))
      else Inl (UnsupportedOperator (operator c)))"

text \<open>
  \<^verbatim>\<open>conditions.every(condition => condition.evaluate(tripData))\<close>: the conditions
  are evaluated in order, the first false one ends the loop, and an exception leaves it.
\<close>

fun every :: "(rat \<Rightarrow> string) \<Rightarrow> RateCondition list \<Rightarrow> TripData \<Rightarrow> error + bool" where
  "every ts [] tripData = Inr True"
| "every ts (c # cs) tripData =
     (case evaluate ts c tripData of
        Inl e \<Rightarrow> Inl e
      | Inr b \<Rightarrow> if b then every ts cs tripData else Inr False)"

subsection \<open>\<^verbatim>\<open>AdditionalCharge.calculate\<close>\<close>

definition calculate ::
  "(rat \<Rightarrow> string) \<Rightarrow> AdditionalCharge \<Rightarrow> jsnum \<Rightarrow> TripData \<Rightarrow> error + jsnum" where
  "calculate ts ch baseAmount tripData =
     (case every ts (conditions_charge ch) tripData of
        Inl e \<Rightarrow> Inl e
      | Inr allConditionsMet \<Rightarrow>
          if \<not> allConditionsMet then Inr (Fin 0)
          else if isPercentage ch then Inr (js_div (js_mul baseAmount (value_charge ch)) (Fin 100))
          else Inr (value_charge ch))"

subsection \<open>\<^verbatim>\<open>FuelAdjustment.calculate\<close>\<close>

definition calculate_fuel :: "FuelAdjustment \<Rightarrow> jsnum \<Rightarrow> jsnum" where
  "calculate_fuel fa baseRate' =
     (if \<not> enabled fa \<or> strict_eq (JNum (basePrice fa)) (JNum (Fin 0)) then Fin 0
      else
        let priceChange = js_sub (currentPrice fa) (basePrice fa);
            percentageChange = js_mul (js_div priceChange (basePrice fa)) (Fin 100);
            adjustmentAmount =
              js_div (js_mul (js_mul baseRate' percentageChange) (adjustmentFactor fa)) (Fin 100)
        in adjustmentAmount)"

subsection \<open>\<^verbatim>\<open>ChargeCalculation\<close>\<close>

text \<open>
  \<^verbatim>\<open>calculateTotalCharge\<close> reads the five fields and runs three loops over the
  values of the maps, in insertion order.
\<close>

definition calculateTotalCharge :: "ChargeCalculation \<Rightarrow> jsnum" where
  "calculateTotalCharge this =
     (let total = baseCharge this;
          total = foldl js_add total (map snd (additionalCharges this));
          total = js_add total (fuelAdjustment this);
          total = foldl js_add total (map snd (surcharges this));
          total = foldl js_sub total (map snd (discounts this))
      in total)"

text \<open>The constructor stores the five arguments, then the total computed from them.\<close>

definition new_ChargeCalculation ::
  "jsnum \<Rightarrow> (string \<times> jsnum) list \<Rightarrow> jsnum \<Rightarrow> (string \<times> jsnum) list \<Rightarrow>
   (string \<times> jsnum) list \<Rightarrow> ChargeCalculation" where
  "new_ChargeCalculation bc acs fa ds ss =
     (let this = \<lparr>baseCharge = bc, additionalCharges = acs, fuelAdjustment = fa,
                  discounts = ds, surcharges = ss, totalCharge = NaN\<rparr>
      in this\<lparr>totalCharge := calculateTotalCharge this\<rparr>)"

definition breakdown :: "ChargeCalculation \<Rightarrow> ChargeBreakdown" where
  "breakdown this =
     \<lparr>baseCharge_b = baseCharge this,
      additionalCharges_b = additionalCharges this,
      fuelAdjustment_b = fuelAdjustment this,
      discounts_b = discounts this,
      surcharges_b = surcharges this,
      totalCharge_b = totalCharge this\<rparr>"

subsection \<open>\<^verbatim>\<open>RateItem.calculateCharge\<close> and \<^verbatim>\<open>RateItem.matchesCriteria\<close>\<close>

text \<open>
  The \<^verbatim>\<open>switch\<close> on the rate type. The multiplication converts the trip's field to
  a number; an absent field is \<^verbatim>\<open>undefined\<close> and gives \<open>NaN\<close>.
\<close>

definition base_by_rateType :: "RateItem \<Rightarrow> TripData \<Rightarrow> error + jsnum" where
  "base_by_rateType this tripData =
     (if rateType this = ''FIXED'' then Inr (baseRate this)
      else if rateType this = ''PER_KM'' then
        Inr (js_mul (baseRate this) (to_number (get_prop tripData ''distance'')))
      else if rateType this = ''PER_KG'' then
        Inr (js_mul (baseRate this) (to_number (get_prop tripData ''weight'')))
      else if rateType this = ''PER_CBM'' then
        Inr (js_mul (baseRate this) (to_number (get_prop tripData ''volume'')))
      else if rateType this = ''SLAB_BASED'' then Inr (baseRate this)
      else if rateType this = ''ZONE_BASED'' then Inr (baseRate this)
      else Inl (UnsupportedRateType (rateType this)))"

text \<open>The loop over the additional charges, filling the map of amounts by name.\<close>

fun charge_loop ::
  "(rat \<Rightarrow> string) \<Rightarrow> AdditionalCharge list \<Rightarrow> jsnum \<Rightarrow> TripData \<Rightarrow>
   (string \<times> jsnum) list \<Rightarrow> error + (string \<times> jsnum) list" where
  "charge_loop ts [] baseCharge' tripData acc = Inr acc"
| "charge_loop ts (charge # rest) baseCharge' tripData acc =
     (case calculate ts charge baseCharge' tripData of
        Inl e \<Rightarrow> Inl e
      | Inr chargeAmount \<Rightarrow>
          charge_loop ts rest baseCharge' tripData (map_set (name charge) chargeAmount acc))"

definition calculateCharge ::
  "(rat \<Rightarrow> string) \<Rightarrow> RateItem \<Rightarrow> TripData \<Rightarrow> error + ChargeCalculation" where
  "calculateCharge ts this tripData =
     (case every ts (conditions this) tripData of
        Inl e \<Rightarrow> Inl e
      | Inr allConditionsMet \<Rightarrow>
          if \<not> allConditionsMet then Inl ConditionsNotMet
          else
            (case base_by_rateType this tripData of
               Inl e \<Rightarrow> Inl e
             | Inr computed \<Rightarrow>
                 (let baseCharge' =
                        (if js_lt computed (minCharge this) then minCharge this else computed)
                  in case charge_loop ts (additionalCharges_item this) baseCharge' tripData [] of
                       Inl e \<Rightarrow> Inl e
                     | Inr charges \<Rightarrow>
                         Inr (new_ChargeCalculation baseCharge' charges
                                (calculate_fuel (fuelAdjustment_item this) baseCharge') [] []))))"

definition matchesCriteria :: "RateItem \<Rightarrow> jsval \<Rightarrow> jsval \<Rightarrow> jsval \<Rightarrow> bool" where
  "matchesCriteria this origin' destination' vehicleType' =
     ((strict_eq (JStr (origin this)) (JStr ''*'') \<or> strict_eq (JStr (origin this)) origin') \<and>
      (strict_eq (JStr (destination this)) (JStr ''*'') \<or>
       strict_eq (JStr (destination this)) destination') \<and>
      (strict_eq (JStr (vehicleType this)) (JStr ''*'') \<or>
       strict_eq (JStr (vehicleType this)) vehicleType'))"

subsection \<open>\<^verbatim>\<open>RateCard.calculateRate\<close>\<close>

definition applicableItems :: "RateCard \<Rightarrow> TripData \<Rightarrow> RateItem list" where
  "applicableItems this tripData =
     filter (\<lambda>item. matchesCriteria item (get_prop tripData ''origin'')
                      (get_prop tripData ''destination'') (get_prop tripData ''vehicleType''))
       (rateItems this)"

definition calculateRate ::
  "(rat \<Rightarrow> string) \<Rightarrow> RateCard \<Rightarrow> TripData \<Rightarrow> error + ChargeCalculation" where
  "calculateRate ts this tripData =
     (if length (applicableItems this tripData) = 0
      then Inl (NoApplicableRate (get_prop tripData ''id''))
      else calculateCharge ts (applicableItems this tripData ! 0) tripData)"

section \<open>The specification's vocabulary\<close>

text \<open>
  The matching rule in the specification's words: each key of the rule is the wildcard
  marker, or the trip's field is a string equal to it.
\<close>

definition spec_matches :: "TripData \<Rightarrow> RateItem \<Rightarrow> bool" where
  "spec_matches tripData item =
     ((origin item = ''*'' \<or> get_prop tripData ''origin'' = JStr (origin item)) \<and>
      (destination item = ''*'' \<or> get_prop tripData ''destination'' = JStr (destination item)) \<and>
      (vehicleType item = ''*'' \<or> get_prop tripData ''vehicleType'' = JStr (vehicleType item)))"

subsection \<open>Example data\<close>

text \<open>A rendering of non-integral numbers that is never consulted by the examples.\<close>

abbreviation no_rendering :: "rat \<Rightarrow> string" where
  "no_rendering \<equiv> (\<lambda>_. [])"

text \<open>A fuel adjustment that is switched off.\<close>

abbreviation no_fuel :: FuelAdjustment where
  "no_fuel \<equiv>
     \<lparr>enabled = False, basePrice = Fin 0, currentPrice = Fin 0, adjustmentFactor = Fin 0\<rparr>"

text \<open>A fixed-rate rule with no conditions, no additional charges and no minimum.\<close>

abbreviation fixed_item :: "string \<Rightarrow> string \<Rightarrow> string \<Rightarrow> rat \<Rightarrow> RateItem" where
  "fixed_item org dst vt rate \<equiv>
     \<lparr>origin = org, destination = dst, vehicleType = vt, rateType = ''FIXED'',
      baseRate = Fin rate, minCharge = Fin 0, additionalCharges_item = [], conditions = [],
      fuelAdjustment_item = no_fuel\<rparr>"

text \<open>The condition \<^verbatim>\<open>weight > "100"\<close>.\<close>

abbreviation weight_over_100 :: RateCondition where
  "weight_over_100 \<equiv>
     \<lparr>parameter = ''weight'', operator = ''GREATER_THAN'', value_cond = JStr ''100''\<rparr>"

text \<open>A charge of 10 percent of the base charge, for trips heavier than 100.\<close>

abbreviation loading_charge :: AdditionalCharge where
  "loading_charge \<equiv>
     \<lparr>name = ''loading'', value_charge = Fin 10, isPercentage = True,
      conditions_charge = [weight_over_100]\<rparr>"

text \<open>
  The rule of the specification's example: 5 per kilometre, at least 50; one condition
  on the distance and one additional charge.
\<close>

abbreviation per_km_item :: RateItem where
  "per_km_item \<equiv>
     \<lparr>origin = ''*'', destination = ''*'', vehicleType = ''*'', rateType = ''PER_KM'',
      baseRate = Fin 5, minCharge = Fin 50,
      additionalCharges_item = [loading_charge],
      conditions =
        [\<lparr>parameter = ''distance'', operator = ''LESS_THAN'', value_cond = JNum (Fin 1000)\<rparr>],
      fuelAdjustment_item = no_fuel\<rparr>"

section \<open>Properties\<close>

subsection \<open>Evaluating the rounding on numerals\<close>

lemma floor_numeral_div [simp]:
  "\<lfloor>(numeral a :: rat) / numeral b\<rfloor> = numeral a div numeral b"
  using floor_divide_of_int_eq [of "numeral a" "numeral b", where ?'a = rat] by simp

lemma ceiling_numeral_div [simp]:
  "\<lceil>(numeral a :: rat) / numeral b\<rceil> = - ((- numeral a) div numeral b)"
  using floor_divide_of_int_eq [of "- numeral a" "numeral b", where ?'a = rat]
  by (simp add: ceiling_def)

lemma bit_length_0 [simp]: "bit_length 0 = 0"
  by (simp add: bit_length.simps)

lemma bit_length_1 [simp]: "bit_length (Suc 0) = 1" "bit_length 1 = 1"
  by (simp_all add: bit_length.simps)

lemma bit_length_Bit0 [simp]: "bit_length (numeral (Num.Bit0 n)) = Suc (bit_length (numeral n))"
proof -
  have "numeral (Num.Bit0 n) div 2 = (numeral n :: nat)" by simp
  moreover have "numeral (Num.Bit0 n) \<noteq> (0::nat)" by simp
  ultimately show ?thesis by (subst bit_length.simps) (simp del: div_mult_self1_is_m)
qed

lemma bit_length_Bit1 [simp]: "bit_length (numeral (Num.Bit1 n)) = Suc (bit_length (numeral n))"
proof -
  have "numeral (Num.Bit1 n) div 2 = (numeral n :: nat)" by simp
  moreover have "numeral (Num.Bit1 n) \<noteq> (0::nat)" by simp
  ultimately show ?thesis by (subst bit_length.simps) simp
qed

lemmas rnd_eval = rnd_def round_pos_def ilog2_def pow2_def round_even_def Let_def

subsection \<open>The sign of a rounded result\<close>

lemma js_lt_NaN_right [simp]: "js_lt a NaN = False"
  by (cases a) simp_all

lemma rnd_zero [simp]: "rnd 0 = Fin 0"
  by (simp add: rnd_def)

lemma round_even_nonneg: "0 \<le> x \<Longrightarrow> 0 \<le> round_even x"
  by (auto simp: round_even_def Let_def)

lemma pow2_pos: "0 < pow2 e"
  by (simp add: pow2_def)

lemma round_pos_sign: "0 < a \<Longrightarrow> round_pos a = PInf \<or> (\<exists>v\<ge>0. round_pos a = Fin v)"
proof -
  assume a: "0 < a"
  define ex where "ex = max (ilog2 a - 52) (- 1074)"
  have "0 \<le> a / pow2 ex" using a pow2_pos [of ex] by simp
  then have "0 \<le> round_even (a / pow2 ex)" by (rule round_even_nonneg)
  then have "0 \<le> rat_of_int (round_even (a / pow2 ex)) * pow2 ex"
    using pow2_pos [of ex] by simp
  then show ?thesis
    unfolding round_pos_def Let_def ex_def [symmetric] by auto
qed

text \<open>Rounding never changes the side of zero a number is on, and never gives \<open>NaN\<close>.\<close>

lemma rnd_nonneg: "0 \<le> q \<Longrightarrow> js_le (Fin 0) (rnd q)"
  using round_pos_sign [of q] by (auto simp: rnd_def js_le_def)

lemma rnd_nonpos: "q \<le> 0 \<Longrightarrow> js_le (rnd q) (Fin 0)"
  using round_pos_sign [of "- q"] by (auto simp: rnd_def js_le_def)

lemma js_mul_nonpos_right: "js_le x (Fin 0) \<Longrightarrow> 0 < c \<Longrightarrow> js_le (js_mul x (Fin c)) (Fin 0)"
proof (cases x)
  case (Fin v)
  assume "js_le x (Fin 0)" and c: "0 < c"
  with Fin have "v * c \<le> 0" by (simp add: js_le_def mult_le_0_iff)
  then show ?thesis using Fin by (simp add: rnd_nonpos)
qed (simp_all add: js_le_def signed_inf_def)

lemma js_mul_nonneg_right: "js_le (Fin 0) x \<Longrightarrow> 0 < c \<Longrightarrow> js_le (Fin 0) (js_mul x (Fin c))"
proof (cases x)
  case (Fin v)
  assume "js_le (Fin 0) x" and c: "0 < c"
  with Fin have "0 \<le> v * c" by (simp add: js_le_def)
  then show ?thesis using Fin by (simp add: rnd_nonneg)
qed (simp_all add: js_le_def signed_inf_def)

lemma js_mul_nonpos_left: "js_le x (Fin 0) \<Longrightarrow> 0 < b \<Longrightarrow> js_le (js_mul (Fin b) x) (Fin 0)"
proof (cases x)
  case (Fin v)
  assume "js_le x (Fin 0)" and b: "0 < b"
  with Fin have "b * v \<le> 0" by (simp add: js_le_def mult_le_0_iff)
  then show ?thesis using Fin by (simp add: rnd_nonpos)
qed (simp_all add: js_le_def signed_inf_def)

lemma js_mul_nonneg_left: "js_le (Fin 0) x \<Longrightarrow> 0 < b \<Longrightarrow> js_le (Fin 0) (js_mul (Fin b) x)"
proof (cases x)
  case (Fin v)
  assume "js_le (Fin 0) x" and b: "0 < b"
  with Fin have "0 \<le> b * v" by (simp add: js_le_def)
  then show ?thesis using Fin by (simp add: rnd_nonneg)
qed (simp_all add: js_le_def signed_inf_def)

lemma js_div_nonpos: "js_le x (Fin 0) \<Longrightarrow> 0 < c \<Longrightarrow> js_le (js_div x (Fin c)) (Fin 0)"
proof (cases x)
  case (Fin v)
  assume "js_le x (Fin 0)" and c: "0 < c"
  with Fin have "v / c \<le> 0" by (simp add: js_le_def divide_le_0_iff)
  then show ?thesis using Fin c by (simp add: rnd_nonpos)
qed (simp_all add: js_le_def signed_inf_def)

lemma js_div_nonneg: "js_le (Fin 0) x \<Longrightarrow> 0 < c \<Longrightarrow> js_le (Fin 0) (js_div x (Fin c))"
proof (cases x)
  case (Fin v)
  assume "js_le (Fin 0) x" and c: "0 < c"
  with Fin have "0 \<le> v / c" by (simp add: js_le_def)
  then show ?thesis using Fin c by (simp add: rnd_nonneg)
qed (simp_all add: js_le_def signed_inf_def)

subsection \<open>Loops over conditions and charges\<close>

lemma every_all_true:
  "(\<forall>c \<in> set cs. evaluate ts c t = Inr True) \<Longrightarrow> every ts cs t = Inr True"
  by (induction cs) simp_all

lemma every_first_false:
  "(\<forall>p \<in> set pre. \<exists>b. evaluate ts p t = Inr b) \<Longrightarrow> evaluate ts c t = Inr False \<Longrightarrow>
   every ts (pre @ c # post) t = Inr False"
  by (induction pre) auto

lemma every_no_error:
  "(\<forall>c \<in> set cs. \<exists>b. evaluate ts c t = Inr b) \<Longrightarrow> \<exists>b. every ts cs t = Inr b"
  by (induction cs) auto

lemma calculate_no_error:
  "(\<forall>c \<in> set (conditions_charge ch). \<exists>b. evaluate ts c t = Inr b) \<Longrightarrow>
   \<exists>a. calculate ts ch base t = Inr a"
  using every_no_error [of "conditions_charge ch" ts t] by (auto simp: calculate_def)

lemma charge_loop_no_error:
  "(\<forall>ch \<in> set chs. \<forall>c \<in> set (conditions_charge ch). \<exists>b. evaluate ts c t = Inr b) \<Longrightarrow>
   \<exists>m. charge_loop ts chs base t acc = Inr m"
proof (induction chs arbitrary: acc)
  case Nil
  show ?case by simp
next
  case (Cons ch chs)
  then obtain a where "calculate ts ch base t = Inr a"
    using calculate_no_error [of ch ts t base] by auto
  with Cons show ?case by simp
qed

text \<open>The conditions-not-met error is raised by \<^verbatim>\<open>calculateCharge\<close> alone.\<close>

lemma evaluate_not_ConditionsNotMet: "evaluate ts c t \<noteq> Inl ConditionsNotMet"
  by (cases "value_cond c"; cases "get_prop t (parameter c)")
     (auto simp: evaluate_def Let_def split: sum.splits)

lemma every_not_ConditionsNotMet: "every ts cs t \<noteq> Inl ConditionsNotMet"
  by (induction cs) (auto simp: evaluate_not_ConditionsNotMet split: sum.splits)

lemma calculate_not_ConditionsNotMet: "calculate ts ch base t \<noteq> Inl ConditionsNotMet"
  using every_not_ConditionsNotMet [of ts "conditions_charge ch" t]
  by (auto simp: calculate_def split: sum.splits)

lemma charge_loop_not_ConditionsNotMet: "charge_loop ts chs base t acc \<noteq> Inl ConditionsNotMet"
  by (induction chs arbitrary: acc)
     (auto simp: calculate_not_ConditionsNotMet split: sum.splits)

lemma base_by_rateType_error:
  "base_by_rateType this t = Inl e \<Longrightarrow> e = UnsupportedRateType (rateType this)"
  by (simp add: base_by_rateType_def split: if_splits)

text \<open>What \<^verbatim>\<open>calculateCharge\<close> does once the conditions hold and the rate type is known.\<close>

lemma calculateCharge_met:
  "every ts (conditions this) t = Inr True \<Longrightarrow> base_by_rateType this t = Inr computed \<Longrightarrow>
   calculateCharge ts this t =
     (case charge_loop ts (additionalCharges_item this)
             (if js_lt computed (minCharge this) then minCharge this else computed) t [] of
        Inl e \<Rightarrow> Inl e
      | Inr charges \<Rightarrow>
          Inr (new_ChargeCalculation
                 (if js_lt computed (minCharge this) then minCharge this else computed)
                 charges
                 (calculate_fuel (fuelAdjustment_item this)
                    (if js_lt computed (minCharge this) then minCharge this else computed))
                 [] []))"
  by (simp add: calculateCharge_def Let_def)

lemma baseCharge_new [simp]: "baseCharge (new_ChargeCalculation bc acs fa ds ss) = bc"
  by (simp add: new_ChargeCalculation_def)

lemma matchesCriteria_spec:
  "matchesCriteria item (get_prop t ''origin'') (get_prop t ''destination'')
     (get_prop t ''vehicleType'') = spec_matches t item"
  by (auto simp: matchesCriteria_def spec_matches_def)

lemma filter_first:
  "P x \<Longrightarrow> (\<forall>p \<in> set pre. \<not> P p) \<Longrightarrow> filter P (pre @ x # post) = x # filter P post"
  by (induction pre) auto

text \<open>The definitions a concrete evaluation of \<^verbatim>\<open>parseFloat\<close> unfolds.\<close>

lemmas parse_defs =
  parseFloat_str_def trimStart_def is_ws_def parse_decimal_def parse_unsigned_def is_digit_def
  parse_exponent_def digits_value_def digit_val_def pow10_def

text \<open>The result of \<^verbatim>\<open>calculateCharge\<close> is built by the constructor, with empty maps of
  discounts and surcharges.\<close>

lemma calculateCharge_result:
  "calculateCharge ts this t = Inr res \<Longrightarrow>
   \<exists>bc m. res = new_ChargeCalculation bc m (calculate_fuel (fuelAdjustment_item this) bc) [] []"
  by (auto simp: calculateCharge_def Let_def split: sum.splits if_splits)

text \<open>The definitions a concrete evaluation of the engine unfolds.\<close>

lemmas value_defs =
  get_prop_def object_prototype_def to_number_def parseFloat_def function_text_def element_def
  trim_def js_gt_def js_ge_def js_le_def js_sub_def num_eq_def

lemmas engine_defs =
  evaluate_def calculate_def calculate_fuel_def base_by_rateType_def calculateCharge_def
  new_ChargeCalculation_def calculateTotalCharge_def

subsection \<open>Base charge of a rate rule\<close>

text \<open>
  Claim C1. For a rule and a trip that satisfies every condition of the rule,
  \<^verbatim>\<open>calculateCharge\<close> returns a result whose base charge is computed by rate type:
  the base rate as it is for \<^verbatim>\<open>FIXED\<close>, \<^verbatim>\<open>SLAB_BASED\<close> and \<^verbatim>\<open>ZONE_BASED\<close>,
  the base rate times the trip's distance, weight or volume for \<^verbatim>\<open>PER_KM\<close>,
  \<^verbatim>\<open>PER_KG\<close> and \<^verbatim>\<open>PER_CBM\<close> (the specification's per-distance, per-weight and
  per-volume types); and a computed amount below the rule's minimum charge is replaced
  by exactly the minimum charge. The result exists when no condition of an additional
  charge raises an exception.
\<close>

theorem calculateCharge_base_charge:
  assumes met: "\<forall>c \<in> set (conditions this). evaluate ts c tripData = Inr True"
    and charges: "\<forall>ch \<in> set (additionalCharges_item this).
                    \<forall>c \<in> set (conditions_charge ch). \<exists>b. evaluate ts c tripData = Inr b"
    and rt: "rateType this \<in>
               {''FIXED'', ''PER_KM'', ''PER_KG'', ''PER_CBM'', ''SLAB_BASED'', ''ZONE_BASED''}"
  shows "\<exists>res. calculateCharge ts this tripData = Inr res \<and>
           baseCharge res =
             (let computed =
                (if rateType this = ''PER_KM''
                 then js_mul (baseRate this) (to_number (get_prop tripData ''distance''))
                 else if rateType this = ''PER_KG''
                 then js_mul (baseRate this) (to_number (get_prop tripData ''weight''))
                 else if rateType this = ''PER_CBM''
                 then js_mul (baseRate this) (to_number (get_prop tripData ''volume''))
                 else baseRate this)
              in if js_lt computed (minCharge this) then minCharge this else computed)"
proof -
  define computed where "computed =
    (if rateType this = ''PER_KM''
     then js_mul (baseRate this) (to_number (get_prop tripData ''distance''))
     else if rateType this = ''PER_KG''
     then js_mul (baseRate this) (to_number (get_prop tripData ''weight''))
     else if rateType this = ''PER_CBM''
     then js_mul (baseRate this) (to_number (get_prop tripData ''volume''))
     else baseRate this)"
  define clamped where
    "clamped = (if js_lt computed (minCharge this) then minCharge this else computed)"
  have every_ok: "every ts (conditions this) tripData = Inr True"
    using met by (rule every_all_true)
  have base: "base_by_rateType this tripData = Inr computed"
    using rt unfolding base_by_rateType_def computed_def by auto
  obtain m where loop: "charge_loop ts (additionalCharges_item this) clamped tripData [] = Inr m"
    using charge_loop_no_error [OF charges] by blast
  have "calculateCharge ts this tripData =
          Inr (new_ChargeCalculation clamped m
                 (calculate_fuel (fuelAdjustment_item this) clamped) [] [])"
    using loop unfolding calculateCharge_met [OF every_ok base] clamped_def by simp
  then show ?thesis
    unfolding computed_def [symmetric] Let_def clamped_def [symmetric] by simp
qed

text \<open>
  The specification's example: 5 per kilometre over a distance of 8 is 40, below the
  minimum of 50, so the base charge is 50.
\<close>

theorem calculateCharge_base_charge_witness:
  "\<exists>res. calculateCharge no_rendering per_km_item [''distance'' \<mapsto> JNum (Fin 8)] = Inr res \<and>
         baseCharge res = Fin 50"
  using calculateCharge_base_charge
    [where this = per_km_item and ts = no_rendering
       and tripData = "[''distance'' \<mapsto> JNum (Fin 8)]"]
  by (auto simp: evaluate_def value_defs rnd_eval)

subsection \<open>Total of a charge composition\<close>

text \<open>
  Claim C2. The total of a charge composition is computed by the constructor and stored
  on the result. It is the base charge, plus each additional charge in turn, plus the
  fuel adjustment, plus each surcharge in turn, minus each discount in turn: the amounts
  are added one at a time, in the order of the maps, each addition rounding as the
  language's numbers do. \<^verbatim>\<open>breakdown\<close> returns the stored total of whatever
  composition it is given, without computing it again. The result of
  \<^verbatim>\<open>calculateCharge\<close> has no discounts and no surcharges, so its total is its base
  charge plus its additional charges plus its fuel adjustment.
\<close>

theorem totalCharge_composition:
  "totalCharge (new_ChargeCalculation bc acs fa ds ss) =
     foldl js_sub
       (foldl js_add (js_add (foldl js_add bc (map snd acs)) fa) (map snd ss))
       (map snd ds) \<and>
   totalCharge_b (breakdown this) = totalCharge this \<and>
   (calculateCharge ts item tripData = Inr res \<longrightarrow>
    discounts res = [] \<and> surcharges res = [] \<and>
    totalCharge res =
      js_add (foldl js_add (baseCharge res) (map snd (additionalCharges res)))
        (fuelAdjustment res))"
proof (intro conjI impI)
  show "totalCharge (new_ChargeCalculation bc acs fa ds ss) =
     foldl js_sub
       (foldl js_add (js_add (foldl js_add bc (map snd acs)) fa) (map snd ss))
       (map snd ds)"
    by (simp add: new_ChargeCalculation_def calculateTotalCharge_def)
  show "totalCharge_b (breakdown this) = totalCharge this"
    by (simp add: breakdown_def)
next
  assume "calculateCharge ts item tripData = Inr res"
  then obtain b m where
    res: "res = new_ChargeCalculation b m (calculate_fuel (fuelAdjustment_item item) b) [] []"
    using calculateCharge_result by blast
  show "discounts res = []" and "surcharges res = []"
    and "totalCharge res =
      js_add (foldl js_add (baseCharge res) (map snd (additionalCharges res)))
        (fuelAdjustment res)"
    by (simp_all add: res new_ChargeCalculation_def calculateTotalCharge_def)
qed

text \<open>
  Three compositions: one with every kind of amount; one whose additions round, the
  total of \<open>2\<^sup>5\<^sup>3\<close>, 1 and 1 being \<open>2\<^sup>5\<^sup>3\<close>; and the result of the example rule on a trip
  of 8 kilometres. The last line reads a stored total that no sum of the fields gives.
\<close>

theorem totalCharge_composition_witness:
  "totalCharge (new_ChargeCalculation (Fin 100) [(''toll'', Fin 10), (''permit'', Fin 5)]
      (Fin 2) [(''loyalty'', Fin 7)] [(''night'', Fin 3)]) = Fin 113 \<and>
   totalCharge (new_ChargeCalculation (Fin 9007199254740992) [(''a'', Fin 1), (''b'', Fin 1)]
      (Fin 0) [] []) = Fin 9007199254740992 \<and>
   calculateCharge no_rendering per_km_item [''distance'' \<mapsto> JNum (Fin 8)] =
     Inr \<lparr>baseCharge = Fin 50, additionalCharges = [(''loading'', Fin 0)],
          fuelAdjustment = Fin 0, discounts = [], surcharges = [], totalCharge = Fin 50\<rparr> \<and>
   totalCharge_b (breakdown
     \<lparr>baseCharge = Fin 100, additionalCharges = [], fuelAdjustment = Fin 0, discounts = [],
      surcharges = [], totalCharge = Fin 42\<rparr>) = Fin 42"
proof -
  have run: "calculateCharge no_rendering per_km_item [''distance'' \<mapsto> JNum (Fin 8)] =
     Inr \<lparr>baseCharge = Fin 50, additionalCharges = [(''loading'', Fin 0)],
          fuelAdjustment = Fin 0, discounts = [], surcharges = [], totalCharge = Fin 50\<rparr>"
    by (simp add: engine_defs value_defs rnd_eval)
  show ?thesis
    using run
      totalCharge_composition
        [where bc = "Fin 100" and acs = "[(''toll'', Fin 10), (''permit'', Fin 5)]"
           and fa = "Fin 2" and ds = "[(''loyalty'', Fin 7)]" and ss = "[(''night'', Fin 3)]"
           and this = "\<lparr>baseCharge = Fin 100, additionalCharges = [], fuelAdjustment = Fin 0,
                         discounts = [], surcharges = [], totalCharge = Fin 42\<rparr>"
           and ts = no_rendering and item = per_km_item
           and tripData = "[''distance'' \<mapsto> JNum (Fin 8)]"
           and res = "\<lparr>baseCharge = Fin 50, additionalCharges = [(''loading'', Fin 0)],
                        fuelAdjustment = Fin 0, discounts = [], surcharges = [],
                        totalCharge = Fin 50\<rparr>"]
      totalCharge_composition
        [where bc = "Fin 9007199254740992" and acs = "[(''a'', Fin 1), (''b'', Fin 1)]"
           and fa = "Fin 0" and ds = "[]" and ss = "[]"]
    by (simp add: js_sub_def rnd_eval)
qed

subsection \<open>Rule selection\<close>

text \<open>
  Claim C3. The rules kept for a trip are exactly the rules of the catalog, in the
  catalog's order, whose origin, destination and vehicle-type keys are each the wildcard
  marker \<^verbatim>\<open>*\<close> or a string equal to the trip's field; and the charge that
  \<^verbatim>\<open>calculateRate\<close> computes is that of the first matching rule of the catalog,
  whatever rules follow it.
\<close>

theorem calculateRate_first_match:
  "applicableItems rateCard tripData = filter (spec_matches tripData) (rateItems rateCard) \<and>
   (rateItems rateCard = pre @ item # post \<and> spec_matches tripData item \<and>
    (\<forall>p \<in> set pre. \<not> spec_matches tripData p) \<longrightarrow>
    calculateRate ts rateCard tripData = calculateCharge ts item tripData)"
proof
  show eq: "applicableItems rateCard tripData =
              filter (spec_matches tripData) (rateItems rateCard)"
    by (simp add: applicableItems_def matchesCriteria_spec)
  show "rateItems rateCard = pre @ item # post \<and> spec_matches tripData item \<and>
    (\<forall>p \<in> set pre. \<not> spec_matches tripData p) \<longrightarrow>
    calculateRate ts rateCard tripData = calculateCharge ts item tripData"
  proof
    assume h: "rateItems rateCard = pre @ item # post \<and> spec_matches tripData item \<and>
      (\<forall>p \<in> set pre. \<not> spec_matches tripData p)"
    then have "applicableItems rateCard tripData = item # filter (spec_matches tripData) post"
      using eq filter_first [of "spec_matches tripData" item pre post] by simp
    then show "calculateRate ts rateCard tripData = calculateCharge ts item tripData"
      by (simp add: calculateRate_def)
  qed
qed

text \<open>
  A catalog of three rules: one for another origin, a rule of wildcards, and a rule that
  names the trip's origin, destination and vehicle. The rule of wildcards comes first
  among the two that match, and it is the one applied.
\<close>

theorem calculateRate_first_match_witness:
  "calculateRate no_rendering
     \<lparr>rateItems = [fixed_item ''B'' ''*'' ''*'' 300, fixed_item ''*'' ''*'' ''*'' 100,
                   fixed_item ''A'' ''Z'' ''truck'' 200]\<rparr>
     [''origin'' \<mapsto> JStr ''A'', ''destination'' \<mapsto> JStr ''Z'',
      ''vehicleType'' \<mapsto> JStr ''truck''] =
   calculateCharge no_rendering (fixed_item ''*'' ''*'' ''*'' 100)
     [''origin'' \<mapsto> JStr ''A'', ''destination'' \<mapsto> JStr ''Z'',
      ''vehicleType'' \<mapsto> JStr ''truck'']"
  using calculateRate_first_match
    [where rateCard = "\<lparr>rateItems = [fixed_item ''B'' ''*'' ''*'' 300,
                         fixed_item ''*'' ''*'' ''*'' 100, fixed_item ''A'' ''Z'' ''truck'' 200]\<rparr>"
       and tripData = "[''origin'' \<mapsto> JStr ''A'', ''destination'' \<mapsto> JStr ''Z'',
                        ''vehicleType'' \<mapsto> JStr ''truck'']"
       and pre = "[fixed_item ''B'' ''*'' ''*'' 300]"
       and item = "fixed_item ''*'' ''*'' ''*'' 100"
       and post = "[fixed_item ''A'' ''Z'' ''truck'' 200]"
       and ts = no_rendering]
  by (simp add: spec_matches_def get_prop_def)

subsection \<open>No applicable rule\<close>

text \<open>
  Claim C4. When no rule of the catalog matches the trip's origin, destination and
  vehicle type, and so for the empty catalog, \<^verbatim>\<open>calculateRate\<close> fails with the
  no-applicable-rate error, which carries the trip's identifier; it returns no result.
\<close>

theorem calculateRate_no_applicable_rate:
  "(\<forall>item \<in> set (rateItems rateCard).
      \<not> matchesCriteria item (get_prop tripData ''origin'') (get_prop tripData ''destination'')
          (get_prop tripData ''vehicleType'')) \<Longrightarrow>
   calculateRate ts rateCard tripData = Inl (NoApplicableRate (get_prop tripData ''id''))"
  by (simp add: calculateRate_def applicableItems_def)

theorem calculateRate_no_applicable_rate_witness:
  "calculateRate no_rendering \<lparr>rateItems = []\<rparr> [''id'' \<mapsto> JStr ''T-1''] =
     Inl (NoApplicableRate (JStr ''T-1'')) \<and>
   calculateRate no_rendering \<lparr>rateItems = [fixed_item ''B'' ''*'' ''*'' 300]\<rparr>
     [''id'' \<mapsto> JNum (Fin 7), ''origin'' \<mapsto> JStr ''A''] = Inl (NoApplicableRate (JNum (Fin 7)))"
  using calculateRate_no_applicable_rate
      [where rateCard = "\<lparr>rateItems = []\<rparr>" and tripData = "[''id'' \<mapsto> JStr ''T-1'']"
         and ts = no_rendering]
    calculateRate_no_applicable_rate
      [where rateCard = "\<lparr>rateItems = [fixed_item ''B'' ''*'' ''*'' 300]\<rparr>"
         and tripData = "[''id'' \<mapsto> JNum (Fin 7), ''origin'' \<mapsto> JStr ''A'']"
         and ts = no_rendering]
  by (simp add: matchesCriteria_def get_prop_def object_prototype_def)

subsection \<open>Additional charges\<close>

text \<open>
  Claim C5. The conditions of a charge component are combined with logical AND. If a
  condition evaluates to false, and no condition before it raises an exception, the
  component contributes exactly zero. If every condition holds, the component
  contributes the base charge times its magnitude divided by 100 when its percentage
  flag is set, and its magnitude otherwise.
\<close>

theorem calculate_conditions_and_amount:
  "(conditions_charge ch = pre @ c # post \<and>
    (\<forall>p \<in> set pre. \<exists>b. evaluate ts p tripData = Inr b) \<and>
    evaluate ts c tripData = Inr False \<longrightarrow>
    calculate ts ch baseAmount tripData = Inr (Fin 0)) \<and>
   ((\<forall>c \<in> set (conditions_charge ch). evaluate ts c tripData = Inr True) \<longrightarrow>
    calculate ts ch baseAmount tripData =
      Inr (if isPercentage ch then js_div (js_mul baseAmount (value_charge ch)) (Fin 100)
           else value_charge ch))"
  using every_first_false [of pre ts tripData c post]
    every_all_true [of "conditions_charge ch" ts tripData]
  by (auto simp: calculate_def)

text \<open>
  The specification's example: a charge of 10 percent on a base charge of 100 is 10
  when its condition holds, and 0 when it does not.
\<close>

theorem calculate_conditions_and_amount_witness:
  "calculate no_rendering loading_charge (Fin 100) [''weight'' \<mapsto> JNum (Fin 500)] =
     Inr (Fin 10) \<and>
   calculate no_rendering loading_charge (Fin 100) [''weight'' \<mapsto> JNum (Fin 50)] =
     Inr (Fin 0)"
  using calculate_conditions_and_amount
      [where ch = loading_charge and pre = "[]" and c = weight_over_100 and post = "[]"
         and ts = no_rendering and tripData = "[''weight'' \<mapsto> JNum (Fin 500)]"
         and baseAmount = "Fin 100"]
    calculate_conditions_and_amount
      [where ch = loading_charge and pre = "[]" and c = weight_over_100 and post = "[]"
         and ts = no_rendering and tripData = "[''weight'' \<mapsto> JNum (Fin 50)]"
         and baseAmount = "Fin 100"]
  by (simp add: evaluate_def value_defs parse_defs rnd_eval)

subsection \<open>Fuel adjustment\<close>

text \<open>
  Claim C6, as amended. A fuel adjustment that is disabled, or whose reference price is
  exactly zero, contributes 0 whatever the current price and the factor. Otherwise the
  adjustment is the base charge times the percentage change of the price,
  \<open>(current - reference) / reference \<times> 100\<close>, times the adjustment factor, divided by 100,
  computed in that order. When the base charge, the reference price and the adjustment
  factor are positive finite numbers and the current price is a finite number, the
  adjustment is a number that never has the sign opposite to the price change: it is
  zero or negative when the price fell, zero or positive when it rose, and zero when it
  did not move.
\<close>

theorem calculate_fuel_amount_and_sign:
  "(\<not> enabled fa \<or> basePrice fa = Fin 0 \<longrightarrow> calculate_fuel fa baseAmount = Fin 0) \<and>
   (enabled fa \<and> basePrice fa \<noteq> Fin 0 \<longrightarrow>
    calculate_fuel fa baseAmount =
      js_div
        (js_mul
           (js_mul baseAmount
              (js_mul (js_div (js_sub (currentPrice fa) (basePrice fa)) (basePrice fa)) (Fin 100)))
           (adjustmentFactor fa))
        (Fin 100)) \<and>
   (enabled fa \<and> basePrice fa = Fin r \<and> currentPrice fa = Fin p \<and>
    adjustmentFactor fa = Fin f \<and> baseAmount = Fin b \<and> 0 < r \<and> 0 < f \<and> 0 < b \<longrightarrow>
    (p < r \<longrightarrow> js_le (calculate_fuel fa baseAmount) (Fin 0)) \<and>
    (r < p \<longrightarrow> js_ge (calculate_fuel fa baseAmount) (Fin 0)) \<and>
    (p = r \<longrightarrow> calculate_fuel fa baseAmount = Fin 0))"
proof (intro conjI impI)
  show "calculate_fuel fa baseAmount = Fin 0" if "\<not> enabled fa \<or> basePrice fa = Fin 0"
    using that by (auto simp: calculate_fuel_def num_eq_def)
  show "calculate_fuel fa baseAmount =
      js_div
        (js_mul
           (js_mul baseAmount
              (js_mul (js_div (js_sub (currentPrice fa) (basePrice fa)) (basePrice fa)) (Fin 100)))
           (adjustmentFactor fa))
        (Fin 100)" if "enabled fa \<and> basePrice fa \<noteq> Fin 0"
    using that by (simp add: calculate_fuel_def num_eq_def Let_def)
next
  assume h: "enabled fa \<and> basePrice fa = Fin r \<and> currentPrice fa = Fin p \<and>
    adjustmentFactor fa = Fin f \<and> baseAmount = Fin b \<and> 0 < r \<and> 0 < f \<and> 0 < b"
  define change where "change = js_div (rnd (p - r)) (Fin r)"
  have val: "calculate_fuel fa baseAmount =
    js_div (js_mul (js_mul (Fin b) (js_mul change (Fin 100))) (Fin f)) (Fin 100)"
    using h by (simp add: calculate_fuel_def num_eq_def Let_def js_sub_def change_def)
  have r: "0 < r" and f: "0 < f" and b: "0 < b" using h by simp_all
  have hundred: "(0::rat) < 100" by simp
  show "js_le (calculate_fuel fa baseAmount) (Fin 0)" if "p < r"
  proof -
    have "js_le (rnd (p - r)) (Fin 0)" using that by (simp add: rnd_nonpos)
    then have "js_le change (Fin 0)" unfolding change_def using r by (rule js_div_nonpos)
    then have "js_le (js_mul change (Fin 100)) (Fin 0)"
      using hundred by (rule js_mul_nonpos_right)
    then have "js_le (js_mul (Fin b) (js_mul change (Fin 100))) (Fin 0)"
      using b by (rule js_mul_nonpos_left)
    then have "js_le (js_mul (js_mul (Fin b) (js_mul change (Fin 100))) (Fin f)) (Fin 0)"
      using f by (rule js_mul_nonpos_right)
    then show ?thesis unfolding val using hundred by (rule js_div_nonpos)
  qed
  show "js_ge (calculate_fuel fa baseAmount) (Fin 0)" if "r < p"
  proof -
    have "js_le (Fin 0) (rnd (p - r))" using that by (simp add: rnd_nonneg)
    then have "js_le (Fin 0) change" unfolding change_def using r by (rule js_div_nonneg)
    then have "js_le (Fin 0) (js_mul change (Fin 100))"
      using hundred by (rule js_mul_nonneg_right)
    then have "js_le (Fin 0) (js_mul (Fin b) (js_mul change (Fin 100)))"
      using b by (rule js_mul_nonneg_left)
    then have "js_le (Fin 0) (js_mul (js_mul (Fin b) (js_mul change (Fin 100))) (Fin f))"
      using f by (rule js_mul_nonneg_right)
    then show ?thesis unfolding val js_ge_def using hundred by (rule js_div_nonneg)
  qed
  show "calculate_fuel fa baseAmount = Fin 0" if "p = r"
    using that r unfolding val change_def by simp
qed

text \<open>
  The specification's example: reference price 100, current price 110, factor one half,
  base charge 200: the adjustment is 10, on the side of the price change. With a
  reference price of zero the adjustment is 0.
\<close>

theorem calculate_fuel_amount_and_sign_witness:
  "calculate_fuel
     \<lparr>enabled = True, basePrice = Fin 100, currentPrice = Fin 110,
      adjustmentFactor = Fin (1 / 2)\<rparr> (Fin 200) = Fin 10 \<and>
   js_ge
     (calculate_fuel
        \<lparr>enabled = True, basePrice = Fin 100, currentPrice = Fin 110,
         adjustmentFactor = Fin (1 / 2)\<rparr> (Fin 200)) (Fin 0) \<and>
   calculate_fuel
     \<lparr>enabled = True, basePrice = Fin 0, currentPrice = Fin 110,
      adjustmentFactor = Fin (1 / 2)\<rparr> (Fin 200) = Fin 0"
  using calculate_fuel_amount_and_sign
      [where fa = "\<lparr>enabled = True, basePrice = Fin 100, currentPrice = Fin 110,
                    adjustmentFactor = Fin (1 / 2)\<rparr>"
         and baseAmount = "Fin 200" and r = 100 and p = 110 and f = "1 / 2" and b = 200]
    calculate_fuel_amount_and_sign
      [where fa = "\<lparr>enabled = True, basePrice = Fin 0, currentPrice = Fin 110,
                    adjustmentFactor = Fin (1 / 2)\<rparr>"
         and baseAmount = "Fin 200" and r = 0 and p = 110 and f = "1 / 2" and b = 200]
  by (simp add: js_sub_def js_ge_def js_le_def rnd_eval)

text \<open>
  The claim as stated, that the sign of the adjustment follows the sign of the price
  change, fails in two ways. For an adjustment factor that is not positive: with
  reference price 100, current price 50, factor \<open>-1\<close> and base charge 200 the price fell
  and the adjustment is \<open>200 \<times> (-50) \<times> (-1) / 100 = 100\<close>. And by rounding: with
  reference price 1, current price 2, and \<open>2\<^sup>-\<^sup>6\<^sup>0\<^sup>0\<close> for both the factor and the base
  charge, the price rose and the product \<open>100 \<times> 2\<^sup>-\<^sup>1\<^sup>2\<^sup>0\<^sup>0\<close> is below every positive double,
  so the adjustment is 0.
\<close>

theorem calculate_fuel_sign_counterexample:
  "js_lt (currentPrice \<lparr>enabled = True, basePrice = Fin 100, currentPrice = Fin 50,
                         adjustmentFactor = Fin (- 1)\<rparr>)
         (basePrice \<lparr>enabled = True, basePrice = Fin 100, currentPrice = Fin 50,
                      adjustmentFactor = Fin (- 1)\<rparr>) \<and>
   calculate_fuel \<lparr>enabled = True, basePrice = Fin 100, currentPrice = Fin 50,
                   adjustmentFactor = Fin (- 1)\<rparr> (Fin 200) = Fin 100 \<and>
   \<not> js_lt (calculate_fuel \<lparr>enabled = True, basePrice = Fin 100, currentPrice = Fin 50,
                             adjustmentFactor = Fin (- 1)\<rparr> (Fin 200)) (Fin 0) \<and>
   js_lt (basePrice \<lparr>enabled = True, basePrice = Fin 1, currentPrice = Fin 2,
                      adjustmentFactor = Fin (1 / 2 ^ 600)\<rparr>)
         (currentPrice \<lparr>enabled = True, basePrice = Fin 1, currentPrice = Fin 2,
                         adjustmentFactor = Fin (1 / 2 ^ 600)\<rparr>) \<and>
   calculate_fuel \<lparr>enabled = True, basePrice = Fin 1, currentPrice = Fin 2,
                   adjustmentFactor = Fin (1 / 2 ^ 600)\<rparr> (Fin (1 / 2 ^ 600)) = Fin 0"
  by (simp add: calculate_fuel_def num_eq_def js_sub_def rnd_eval)

subsection \<open>Condition evaluation\<close>

text \<open>A parameter that reads as \<^verbatim>\<open>undefined\<close> makes the condition false.\<close>

lemma evaluate_undefined_parameter:
  "get_prop tripData (parameter c) = JUndefined \<Longrightarrow> evaluate ts c tripData = Inr False"
  by (simp add: evaluate_def)

text \<open>
  So does a name that is neither a field of the trip record nor a property of
  \<^verbatim>\<open>Object.prototype\<close>.
\<close>

lemma evaluate_absent_name:
  "tripData (parameter c) = None \<Longrightarrow> object_prototype (parameter c) = None \<Longrightarrow>
   evaluate ts c tripData = Inr False"
  by (simp add: evaluate_def get_prop_def)

text \<open>
  Claim C7. The claim is that a condition whose parameter names no field of the trip
  record evaluates to false and raises nothing, for every operator and operand. The
  code reads \<^verbatim>\<open>tripData[this.parameter]\<close>, which also finds what a plain object
  inherits. On a trip record with no fields at all, the parameter \<^verbatim>\<open>constructor\<close>
  reads the function \<^verbatim>\<open>Object\<close>, not \<^verbatim>\<open>undefined\<close>: the test \<^verbatim>\<open>CONTAINS\<close> for
  \<^verbatim>\<open>Object\<close> in its text holds, \<^verbatim>\<open>NOT_EQUALS\<close> holds, and an operator outside
  the enumeration raises the unsupported-operator error.
\<close>

theorem evaluate_inherited_parameter:
  "(Map.empty :: TripData) ''constructor'' = None \<and>
   evaluate no_rendering
     \<lparr>parameter = ''constructor'', operator = ''CONTAINS'', value_cond = JStr ''Object''\<rparr>
     Map.empty = Inr True \<and>
   evaluate no_rendering
     \<lparr>parameter = ''constructor'', operator = ''NOT_EQUALS'', value_cond = JNum (Fin 1)\<rparr>
     Map.empty = Inr True \<and>
   evaluate no_rendering
     \<lparr>parameter = ''constructor'', operator = ''LIKE'', value_cond = JStr ''Object''\<rparr>
     Map.empty = Inl (UnsupportedOperator ''LIKE'')"
  by (simp add: evaluate_def value_defs loose_eq_def is_object_def string_to_number_def
      parse_defs)

text \<open>
  Claim C8, as amended. For a condition whose parameter reads a value other than
  \<^verbatim>\<open>undefined\<close> on the trip record: an operand that \<^verbatim>\<open>parseFloat\<close> cannot read
  raises nothing; it makes \<^verbatim>\<open>GREATER_THAN\<close>, \<^verbatim>\<open>LESS_THAN\<close>,
  \<^verbatim>\<open>GREATER_THAN_EQUAL\<close> and \<^verbatim>\<open>LESS_THAN_EQUAL\<close> evaluate to false, and so does a
  string operand of \<^verbatim>\<open>BETWEEN\<close> whose minimum or maximum cannot be read or is
  missing. A \<^verbatim>\<open>BETWEEN\<close> operand that is not a string raises a \<^verbatim>\<open>TypeError\<close>. An
  operator outside the enumeration raises the unsupported-operator error, which carries
  the operator.
\<close>

theorem evaluate_operand_and_operator:
  assumes present: "get_prop tripData (parameter c) \<noteq> JUndefined"
  shows
   "(operator c \<in> {''GREATER_THAN'', ''LESS_THAN'', ''GREATER_THAN_EQUAL'', ''LESS_THAN_EQUAL''} \<and>
     parseFloat (value_cond c) = NaN \<longrightarrow>
     evaluate ts c tripData = Inr False) \<and>
    (operator c = ''BETWEEN'' \<and> value_cond c = JStr s \<and>
     nums = map (\<lambda>v. parseFloat_str (trim v)) (split_on CHR '','' s) \<and>
     (to_number (element nums 0) = NaN \<or> to_number (element nums 1) = NaN) \<longrightarrow>
     evaluate ts c tripData = Inr False) \<and>
    (operator c = ''BETWEEN'' \<and> (\<forall>s. value_cond c \<noteq> JStr s) \<longrightarrow>
     evaluate ts c tripData = Inl TypeError) \<and>
    (operator c \<notin> {''EQUALS'', ''NOT_EQUALS'', ''GREATER_THAN'', ''LESS_THAN'',
                    ''GREATER_THAN_EQUAL'', ''LESS_THAN_EQUAL'', ''BETWEEN'', ''IN'', ''NOT_IN'',
                    ''CONTAINS''} \<longrightarrow>
     evaluate ts c tripData = Inl (UnsupportedOperator (operator c)))"
proof (intro conjI impI)
  show "evaluate ts c tripData = Inr False"
    if "operator c \<in> {''GREATER_THAN'', ''LESS_THAN'', ''GREATER_THAN_EQUAL'', ''LESS_THAN_EQUAL''}
        \<and> parseFloat (value_cond c) = NaN"
    using that present by (auto simp: evaluate_def js_gt_def js_ge_def js_le_def)
  show "evaluate ts c tripData = Inr False"
    if "operator c = ''BETWEEN'' \<and> value_cond c = JStr s \<and>
     nums = map (\<lambda>v. parseFloat_str (trim v)) (split_on CHR '','' s) \<and>
     (to_number (element nums 0) = NaN \<or> to_number (element nums 1) = NaN)"
    using that present by (auto simp: evaluate_def js_ge_def js_le_def)
  show "evaluate ts c tripData = Inl TypeError"
    if "operator c = ''BETWEEN'' \<and> (\<forall>s. value_cond c \<noteq> JStr s)"
    using that present by (cases "value_cond c") (simp_all add: evaluate_def)
  show "evaluate ts c tripData = Inl (UnsupportedOperator (operator c))"
    if "operator c \<notin> {''EQUALS'', ''NOT_EQUALS'', ''GREATER_THAN'', ''LESS_THAN'',
                    ''GREATER_THAN_EQUAL'', ''LESS_THAN_EQUAL'', ''BETWEEN'', ''IN'', ''NOT_IN'',
                    ''CONTAINS''}"
    using that present by (simp add: evaluate_def)
qed

theorem evaluate_operand_and_operator_witness:
  "evaluate no_rendering
     \<lparr>parameter = ''weight'', operator = ''LESS_THAN_EQUAL'', value_cond = JStr ''heavy''\<rparr>
     [''weight'' \<mapsto> JNum (Fin 10)] = Inr False \<and>
   evaluate no_rendering
     \<lparr>parameter = ''weight'', operator = ''BETWEEN'', value_cond = JStr ''5''\<rparr>
     [''weight'' \<mapsto> JNum (Fin 10)] = Inr False \<and>
   evaluate no_rendering
     \<lparr>parameter = ''weight'', operator = ''BETWEEN'', value_cond = JNum (Fin 5)\<rparr>
     [''weight'' \<mapsto> JNum (Fin 10)] = Inl TypeError \<and>
   evaluate no_rendering
     \<lparr>parameter = ''weight'', operator = ''LIKE'', value_cond = JStr ''1%''\<rparr>
     [''weight'' \<mapsto> JNum (Fin 10)] = Inl (UnsupportedOperator ''LIKE'')"
proof -
  have present: "get_prop [''weight'' \<mapsto> JNum (Fin 10)] ''weight'' \<noteq> JUndefined"
    by (simp add: get_prop_def)
  have unparsable: "parseFloat (JStr ''heavy'') = NaN"
    by (simp add: parseFloat_def parse_defs)
  have missing: "to_number (element (map (\<lambda>v. parseFloat_str (trim v))
                   (split_on CHR '','' ''5'')) 1) = NaN"
    by (simp add: element_def to_number_def)
  show ?thesis
    using unparsable missing
      evaluate_operand_and_operator
        [where tripData = "[''weight'' \<mapsto> JNum (Fin 10)]" and ts = no_rendering
           and c = "\<lparr>parameter = ''weight'', operator = ''LESS_THAN_EQUAL'',
                      value_cond = JStr ''heavy''\<rparr>"]
      evaluate_operand_and_operator
        [where tripData = "[''weight'' \<mapsto> JNum (Fin 10)]" and ts = no_rendering
           and c = "\<lparr>parameter = ''weight'', operator = ''BETWEEN'', value_cond = JStr ''5''\<rparr>"
           and s = "''5''"
           and nums = "map (\<lambda>v. parseFloat_str (trim v)) (split_on CHR '','' ''5'')"]
      evaluate_operand_and_operator
        [where tripData = "[''weight'' \<mapsto> JNum (Fin 10)]" and ts = no_rendering
           and c = "\<lparr>parameter = ''weight'', operator = ''BETWEEN'',
                      value_cond = JNum (Fin 5)\<rparr>"]
      evaluate_operand_and_operator
        [where tripData = "[''weight'' \<mapsto> JNum (Fin 10)]" and ts = no_rendering
           and c = "\<lparr>parameter = ''weight'', operator = ''LIKE'', value_cond = JStr ''1%''\<rparr>"]
    by (simp add: get_prop_def)
qed

text \<open>
  The claim as stated, that an unparsable numeric operand fails the evaluation, does not
  hold: \<^verbatim>\<open>parseFloat("abc")\<close> is \<open>NaN\<close>, every comparison with \<open>NaN\<close> is false, and
  the condition \<^verbatim>\<open>weight > "abc"\<close> on a trip of weight 10 evaluates to false; so does
  \<^verbatim>\<open>weight BETWEEN "abc,20"\<close>.
\<close>

theorem evaluate_unparsable_operand_counterexample:
  "[''weight'' \<mapsto> JNum (Fin 10)] ''weight'' = Some (JNum (Fin 10)) \<and>
   parseFloat (JStr ''abc'') = NaN \<and>
   evaluate no_rendering
     \<lparr>parameter = ''weight'', operator = ''GREATER_THAN'', value_cond = JStr ''abc''\<rparr>
     [''weight'' \<mapsto> JNum (Fin 10)] = Inr False \<and>
   evaluate no_rendering
     \<lparr>parameter = ''weight'', operator = ''BETWEEN'', value_cond = JStr ''abc,20''\<rparr>
     [''weight'' \<mapsto> JNum (Fin 10)] = Inr False"
  by (simp add: evaluate_def value_defs parse_defs rnd_eval)

subsection \<open>Conditions of a rule against conditions of a charge\<close>

text \<open>
  Claim C9. If a condition of the rule itself evaluates to false, and no condition
  before it raises an exception, \<^verbatim>\<open>calculateCharge\<close> fails with the
  conditions-not-met error: it neither skips the rule nor returns a zero charge. A
  charge component with the same conditions contributes zero instead.
\<close>

theorem calculateCharge_conditions_not_met:
  "(conditions this = pre @ c # post \<and>
    (\<forall>p \<in> set pre. \<exists>b. evaluate ts p tripData = Inr b) \<and>
    evaluate ts c tripData = Inr False \<longrightarrow>
    calculateCharge ts this tripData = Inl ConditionsNotMet) \<and>
   (conditions_charge ch = pre @ c # post \<and>
    (\<forall>p \<in> set pre. \<exists>b. evaluate ts p tripData = Inr b) \<and>
    evaluate ts c tripData = Inr False \<longrightarrow>
    calculate ts ch baseAmount tripData = Inr (Fin 0))"
  using every_first_false [of pre ts tripData c post]
  by (auto simp: calculate_def calculateCharge_def)

theorem calculateCharge_conditions_not_met_witness:
  "calculateCharge no_rendering
     ((fixed_item ''*'' ''*'' ''*'' 100)\<lparr>conditions := [weight_over_100]\<rparr>)
     [''weight'' \<mapsto> JNum (Fin 50)] = Inl ConditionsNotMet \<and>
   calculate no_rendering loading_charge (Fin 100) [''weight'' \<mapsto> JNum (Fin 50)] =
     Inr (Fin 0)"
  using calculateCharge_conditions_not_met
    [where this = "(fixed_item ''*'' ''*'' ''*'' 100)\<lparr>conditions := [weight_over_100]\<rparr>"
       and ch = loading_charge and pre = "[]" and c = weight_over_100 and post = "[]"
       and ts = no_rendering and tripData = "[''weight'' \<mapsto> JNum (Fin 50)]"
       and baseAmount = "Fin 100"]
  by (simp add: evaluate_def value_defs parse_defs rnd_eval)

text \<open>
  Claim C10. For every trip record, also one with no fields: a rule whose own list of
  conditions is empty never fails with the conditions-not-met error, and a charge
  component whose list of conditions is empty contributes its full amount, the
  percentage of the base charge or the absolute magnitude.
\<close>

theorem empty_conditions_vacuous:
  "(conditions this = [] \<longrightarrow> calculateCharge ts this tripData \<noteq> Inl ConditionsNotMet) \<and>
   (conditions_charge ch = [] \<longrightarrow>
    calculate ts ch baseAmount tripData =
      Inr (if isPercentage ch then js_div (js_mul baseAmount (value_charge ch)) (Fin 100)
           else value_charge ch))"
proof
  show "conditions this = [] \<longrightarrow> calculateCharge ts this tripData \<noteq> Inl ConditionsNotMet"
  proof
    assume "conditions this = []"
    then have met: "every ts (conditions this) tripData = Inr True" by simp
    show "calculateCharge ts this tripData \<noteq> Inl ConditionsNotMet"
    proof (cases "base_by_rateType this tripData")
      case (Inl e)
      then show ?thesis
        using base_by_rateType_error [OF Inl] by (simp add: calculateCharge_def met)
    next
      case (Inr computed)
      show ?thesis
        using charge_loop_not_ConditionsNotMet
          [of ts "additionalCharges_item this"
              "if js_lt computed (minCharge this) then minCharge this else computed"
              tripData "[]"]
        unfolding calculateCharge_met [OF met Inr]
        by (cases "charge_loop ts (additionalCharges_item this)
              (if js_lt computed (minCharge this) then minCharge this else computed)
              tripData []") simp_all
    qed
  qed
  show "conditions_charge ch = [] \<longrightarrow>
    calculate ts ch baseAmount tripData =
      Inr (if isPercentage ch then js_div (js_mul baseAmount (value_charge ch)) (Fin 100)
           else value_charge ch)"
    by (simp add: calculate_def)
qed

theorem empty_conditions_vacuous_witness:
  "calculateCharge no_rendering (fixed_item ''*'' ''*'' ''*'' 100) Map.empty \<noteq>
     Inl ConditionsNotMet \<and>
   calculate no_rendering
     \<lparr>name = ''permit'', value_charge = Fin 25, isPercentage = False, conditions_charge = []\<rparr>
     (Fin 100) Map.empty = Inr (Fin 25)"
  using empty_conditions_vacuous
    [where this = "fixed_item ''*'' ''*'' ''*'' 100" and ts = no_rendering
       and tripData = Map.empty and baseAmount = "Fin 100"
       and ch = "\<lparr>name = ''permit'', value_charge = Fin 25, isPercentage = False,
                   conditions_charge = []\<rparr>"]
  by simp

end
